theory Spec2Isabelle
  imports Complex_Main "HOL-Library.Char_ord" "HOL-Library.List_Lexorder" "HOL-Library.Multiset"
begin

section \<open>Numbers\<close>

text \<open>
  A TypeScript \<open>number\<close> is modelled as an exact rational, or one of the three special
  values \<open>NaN\<close>, \<open>+Infinity\<close> and \<open>-Infinity\<close>. Arithmetic on finite values is exact
  (no binary64 rounding and no overflow), and the two zeros are identified.
\<close>

datatype number = NaN | NegInf | Fin rat | PosInf

fun inf_of_sign :: "rat \<Rightarrow> number" where
  "inf_of_sign s = (if s = 0 then NaN else if 0 < s then PosInf else NegInf)"

fun sign_of :: "number \<Rightarrow> rat" where
  "sign_of NaN = 0"
| "sign_of NegInf = - 1"
| "sign_of (Fin a) = sgn a"
| "sign_of PosInf = 1"

fun num_add :: "number \<Rightarrow> number \<Rightarrow> number" where
  "num_add (Fin a) (Fin b) = Fin (a + b)"
| "num_add NaN y = NaN"
| "num_add x NaN = NaN"
| "num_add PosInf NegInf = NaN"
| "num_add NegInf PosInf = NaN"
| "num_add PosInf y = PosInf"
| "num_add NegInf y = NegInf"
| "num_add (Fin a) y = y"

fun num_neg :: "number \<Rightarrow> number" where
  "num_neg NaN = NaN"
| "num_neg NegInf = PosInf"
| "num_neg (Fin a) = Fin (- a)"
| "num_neg PosInf = NegInf"

definition num_sub :: "number \<Rightarrow> number \<Rightarrow> number" where
  "num_sub x y = num_add x (num_neg y)"

fun num_mul :: "number \<Rightarrow> number \<Rightarrow> number" where
  "num_mul (Fin a) (Fin b) = Fin (a * b)"
| "num_mul NaN y = NaN"
| "num_mul x NaN = NaN"
| "num_mul x y = inf_of_sign (sign_of x * sign_of y)"

fun num_div :: "number \<Rightarrow> number \<Rightarrow> number" where
  "num_div (Fin a) (Fin b) = (if b = 0 then inf_of_sign (sgn a) else Fin (a / b))"
| "num_div NaN y = NaN"
| "num_div x NaN = NaN"
| "num_div (Fin a) y = Fin 0"
| "num_div x (Fin b) = inf_of_sign (sign_of x * (if 0 \<le> b then 1 else - 1))"
| "num_div x y = NaN"

text \<open>The relational operators: every comparison with \<open>NaN\<close> is false.\<close>

fun num_lt :: "number \<Rightarrow> number \<Rightarrow> bool" where
  "num_lt (Fin a) (Fin b) = (a < b)"
| "num_lt NaN y = False"
| "num_lt x NaN = False"
| "num_lt NegInf NegInf = False"
| "num_lt NegInf y = True"
| "num_lt x NegInf = False"
| "num_lt PosInf y = False"
| "num_lt x PosInf = True"

fun num_le :: "number \<Rightarrow> number \<Rightarrow> bool" where
  "num_le NaN y = False"
| "num_le x NaN = False"
| "num_le x y = (x = y \<or> num_lt x y)"

definition num_gt :: "number \<Rightarrow> number \<Rightarrow> bool" where
  "num_gt x y = num_lt y x"

definition num_ge :: "number \<Rightarrow> number \<Rightarrow> bool" where
  "num_ge x y = num_le y x"

fun Math_max :: "number \<Rightarrow> number \<Rightarrow> number" where
  "Math_max NaN y = NaN"
| "Math_max x NaN = NaN"
| "Math_max x y = (if num_lt x y then y else x)"

fun Math_min :: "number \<Rightarrow> number \<Rightarrow> number" where
  "Math_min NaN y = NaN"
| "Math_min x NaN = NaN"
| "Math_min x y = (if num_lt y x then y else x)"

text \<open>\<open>Math.round\<close> rounds to the nearest integer, a tie going up.\<close>

fun Math_round :: "number \<Rightarrow> number" where
  "Math_round (Fin a) = Fin (of_int \<lfloor>a + 1 / 2\<rfloor>)"
| "Math_round x = x"

definition of_length :: "nat \<Rightarrow> number" where
  "of_length n = Fin (of_nat n)"

section \<open>Helpers\<close>

definition clamp :: "number \<Rightarrow> number \<Rightarrow> number \<Rightarrow> number" where
  "clamp n lo hi = Math_max lo (Math_min hi n)"

section \<open>Types\<close>

text \<open>
  A string is a list of characters of eight bits, compared character by character; a
  character outside this range is written with its UTF-8 bytes. A field that is an array
  is a list, so the guard \<open>d.loadItems || []\<close> of the source has nothing to do.
\<close>

record ToggleItem =
  label :: string
  "value" :: bool

record Virtues =
  study :: bool
  gym :: bool
  meditate :: bool

datatype Level = Easy | Medium | Hard

datatype Strictness = Light | Standard | Hard

record CoachTask =
  level :: Level
  "text" :: string
  why :: string

record Checkin =
  date :: string
  loadItems :: "ToggleItem list"
  virtues :: Virtues
  sleepHours :: number
  sleepQuality :: number
  caffeineMg :: number
  socialMinutes :: number
  workout :: bool
  mood :: number
  energy :: number
  junkFood :: bool
  "notes" :: string
  calories :: number
  proteinG :: number
  carbsG :: number
  fatG :: number

section \<open>Scoring\<close>

definition virtuesCount :: "Virtues \<Rightarrow> number" where
  "virtuesCount v =
     num_add (num_add (if study v then Fin 1 else Fin 0) (if gym v then Fin 1 else Fin 0))
       (if meditate v then Fin 1 else Fin 0)"

definition computeDLS :: "Checkin \<Rightarrow> number" where
  "computeDLS d =
    (let social = clamp (num_mul (num_div (socialMinutes d) (Fin 10)) (Fin 3)) (Fin 0) (Fin 30);
         caffeine = clamp (num_mul (num_div (caffeineMg d) (Fin 50)) (Fin (5 / 2))) (Fin 0) (Fin 20);
         junk = (if junkFood d then Fin 10 else Fin 0);
         loadOn = of_length (length (filter value (loadItems d)));
         extraLoad = clamp (num_mul loadOn (Fin 6)) (Fin 0) (Fin 30);
         virtues = clamp (num_mul (virtuesCount (virtues d)) (Fin 3)) (Fin 0) (Fin 12);
         workout = (if workout d then Fin (- 10) else Fin 0);
         goodSleep = (if num_ge (sleepHours d) (Fin (15 / 2)) then Fin (- 10) else Fin 0);
         raw = num_sub (num_add (num_add (num_add (num_add (num_add social caffeine) junk)
                 extraLoad) workout) goodSleep) virtues
     in clamp (Math_round raw) (Fin 0) (Fin 100))"


text \<open>\<open>history.slice(-7)\<close>: the last seven elements, or all of them when there are fewer.\<close>

definition slice_last :: "nat \<Rightarrow> 'a list \<Rightarrow> 'a list" where
  "slice_last n xs = drop (length xs - n) xs"

definition computeNEI :: "Checkin list \<Rightarrow> number" where
  "computeNEI history =
    (let last7 = slice_last 7 history in
     if length last7 = 0 then Fin 50
     else
       let avgEnergy = num_div (foldl (\<lambda>a x. num_add a (energy x)) (Fin 0) last7)
                         (of_length (length last7));
           avgSleep = num_div (foldl (\<lambda>a x. num_add a (sleepHours x)) (Fin 0) last7)
                         (of_length (length last7));
           loadDays = of_length (length (filter (\<lambda>x. list_ex value (loadItems x)) last7));
           virtueDays = of_length
             (length (filter (\<lambda>x. num_ge (virtuesCount (virtues x)) (Fin 1)) last7));
           score0 = num_mul avgEnergy (Fin 10);
           score1 = (if num_ge avgSleep (Fin (15 / 2)) then num_add score0 (Fin 5) else score0);
           score2 = (if num_ge loadDays (Fin 3) then num_sub score1 (Fin 8) else score1);
           score3 = (if num_ge virtueDays (Fin 4) then num_add score2 (Fin 6) else score2)
       in clamp (Math_round score3) (Fin 0) (Fin 100))"




section \<open>Coach tasks\<close>

text \<open>
  The two suggestion texts that hold a character outside ASCII are written with its UTF-8
  bytes (U+2019 and U+2013).
\<close>

definition coachTasks :: "Checkin \<Rightarrow> number \<Rightarrow> Strictness \<Rightarrow> CoachTask list" where
  "coachTasks today dayNumber strictness =
    (let dls = computeDLS today;
         early = num_le dayNumber (Fin 10);
         late = num_gt dayNumber (Fin 40);
         tasks1 =
           (if early then
              [\<lparr>level = Easy, text = ''5-minute grounding walk (no phone).'',
                why = ''Early resets succeed through tiny stable habits, not intensity.''\<rparr>]
            else if \<not> late then
              [\<lparr>level = Easy, text = ''Set a 60-minute stimulus-free focus block.'',
                why = ''Mid-phase: extend clarity windows gradually.''\<rparr>]
            else
              [\<lparr>level = Easy,
                text = ''Plan tomorrow'' @ [CHR 0xE2, CHR 0x80, CHR 0x99] @ ''s top 3 in 90 seconds.'',
                why = ''Late-phase: optimize momentum, not restriction.''\<rparr>]);
         tasks2 = tasks1 @
           (if num_lt (sleepHours today) (Fin 7) then
              [\<lparr>level = Medium, text = ''Lights-out time tonight + 20-minute wind-down.'',
                why = ''Sleep debt amplifies cravings and worsens baseline stability.''\<rparr>]
            else if num_gt (caffeineMg today) (Fin 200) then
              [\<lparr>level = Medium, text = ''Cap caffeine by 2PM; swap one dose for water.'',
                why = ''Caffeine can mask fatigue and distort natural calibration.''\<rparr>]
            else
              [\<lparr>level = Medium,
                text = ''2'' @ [CHR 0xE2, CHR 0x80, CHR 0x93] @ ''3 sets of light movement (push-ups or squats).'',
                why = ''Light training boosts dopamine tone without spiking it.''\<rparr>]);
         anyLoad = list_ex value (loadItems today);
         tasks3 = tasks2 @
           (if num_gt dls (Fin 70) then
              [\<lparr>level = Level.Hard, text = ''Full evening detox: no social media after 8PM.'',
                why = ''High-load days benefit most from removing high-density stimuli.''\<rparr>]
            else if anyLoad then
              [\<lparr>level = Level.Hard, text = ''Recovery protocol: 20-min walk + protein + early bed.'',
                why = ''A structured rebound stabilizes the next 48 hours.''\<rparr>]
            else if strictness = Strictness.Hard then
              [\<lparr>level = Level.Hard, text = ''Phone out of bedroom + no screens final 45 minutes.'',
                why = ''Hard mode uses environment control to maximize consistency.''\<rparr>]
            else if late then
              [\<lparr>level = Level.Hard, text = ''24-hour low-stimulus cycle (no shortform content).'',
                why = ''Late-phase: deepen discipline with bigger resets.''\<rparr>]
            else
              [\<lparr>level = Level.Hard, text = ''No phone in bed tonight.'',
                why = ''Prevents unconscious dopamine loops at night.''\<rparr>])
     in take 3 tasks3)"

text \<open>
  The decision table of the specification: the text of the suggestion of each level, in
  the order in which the specification words the conditions.
\<close>

definition table_easy :: "number \<Rightarrow> string" where
  "table_easy dayNumber =
    (if num_le dayNumber (Fin 10) then ''5-minute grounding walk (no phone).''
     else if num_gt dayNumber (Fin 40)
       then ''Plan tomorrow'' @ [CHR 0xE2, CHR 0x80, CHR 0x99] @ ''s top 3 in 90 seconds.''
     else ''Set a 60-minute stimulus-free focus block.'')"

definition table_medium :: "Checkin \<Rightarrow> string" where
  "table_medium today =
    (if num_lt (sleepHours today) (Fin 7) then ''Lights-out time tonight + 20-minute wind-down.''
     else if num_gt (caffeineMg today) (Fin 200)
       then ''Cap caffeine by 2PM; swap one dose for water.''
     else ''2'' @ [CHR 0xE2, CHR 0x80, CHR 0x93] @ ''3 sets of light movement (push-ups or squats).'')"

definition table_hard :: "Checkin \<Rightarrow> number \<Rightarrow> Strictness \<Rightarrow> string" where
  "table_hard today dayNumber strictness =
    (if num_gt (computeDLS today) (Fin 70) then ''Full evening detox: no social media after 8PM.''
     else if \<exists>i \<in> set (loadItems today). value i
       then ''Recovery protocol: 20-min walk + protein + early bed.''
     else if strictness = Strictness.Hard
       then ''Phone out of bedroom + no screens final 45 minutes.''
     else if num_gt dayNumber (Fin 40) then ''24-hour low-stimulus cycle (no shortform content).''
     else ''No phone in bed tonight.'')"

section \<open>Saving a check-in\<close>

text \<open>
  \<open>Array.prototype.sort\<close> with a comparator is a stable sort; it is modelled as the
  insertion sort that moves an element past the ones its comparison with is positive.
  The comparator of \<open>saveCheckin\<close> answers 1 for two equal dates in either order, so it
  is a consistent order only on records with pairwise distinct dates.
\<close>

fun insert_by :: "('a \<Rightarrow> 'a \<Rightarrow> number) \<Rightarrow> 'a \<Rightarrow> 'a list \<Rightarrow> 'a list" where
  "insert_by cmp x [] = [x]"
| "insert_by cmp x (y # ys) =
     (if num_gt (cmp x y) (Fin 0) then y # insert_by cmp x ys else x # y # ys)"

definition sort_by :: "('a \<Rightarrow> 'a \<Rightarrow> number) \<Rightarrow> 'a list \<Rightarrow> 'a list" where
  "sort_by cmp xs = foldr (insert_by cmp) xs []"

text \<open>
  Dates are compared as strings, character by character. \<open>saveCheckin\<close> takes the draft
  and the previous history and returns the next history; without a draft nothing changes.
\<close>

definition by_date :: "Checkin \<Rightarrow> Checkin \<Rightarrow> number" where
  "by_date a b = (if date a < date b then Fin (- 1) else Fin 1)"

definition saveCheckin :: "Checkin option \<Rightarrow> Checkin list \<Rightarrow> Checkin list" where
  "saveCheckin draft prev =
    (case draft of
       None \<Rightarrow> prev
     | Some dr \<Rightarrow>
         let exists = list_ex (\<lambda>x. date x = date dr) prev;
             next = (if exists then map (\<lambda>x. if date x = date dr then dr else x) prev
                     else prev @ [dr])
         in sort_by by_date next)"

section \<open>Numeric input fields\<close>

text \<open>
  \<open>Number\<close> applied to a string follows the grammar of ECMAScript's StringToNumber:
  white space is trimmed, the empty string is 0, then a literal in radix 16, 8 or 2, or a
  signed decimal literal with optional fraction and exponent, or a signed \<open>Infinity\<close>;
  anything else is \<open>NaN\<close>. The value of a literal is exact, and the white space
  characters are those of eight bits.
\<close>

definition is_space :: "char \<Rightarrow> bool" where
  "is_space c = (of_char c \<in> {9, 10, 11, 12, 13, 32, 160 :: nat})"

definition trim :: "string \<Rightarrow> string" where
  "trim s = rev (dropWhile is_space (rev (dropWhile is_space s)))"

definition digit_value :: "char \<Rightarrow> nat option" where
  "digit_value c =
    (let n = (of_char c :: nat) in
     if 48 \<le> n \<and> n \<le> 57 then Some (n - 48)
     else if 97 \<le> n \<and> n \<le> 102 then Some (n - 87)
     else if 65 \<le> n \<and> n \<le> 70 then Some (n - 55)
     else None)"

definition is_digit :: "nat \<Rightarrow> char \<Rightarrow> bool" where
  "is_digit radix c = (case digit_value c of None \<Rightarrow> False | Some v \<Rightarrow> v < radix)"

definition digits_value :: "nat \<Rightarrow> string \<Rightarrow> nat" where
  "digits_value radix s = foldl (\<lambda>a c. a * radix + (case digit_value c of None \<Rightarrow> 0 | Some v \<Rightarrow> v)) 0 s"

definition radix_literal :: "nat \<Rightarrow> string \<Rightarrow> number" where
  "radix_literal radix s =
    (if s \<noteq> [] \<and> list_all (is_digit radix) s then Fin (of_nat (digits_value radix s)) else NaN)"

definition exponent_part :: "string \<Rightarrow> int option" where
  "exponent_part s =
    (case s of
       [] \<Rightarrow> Some 0
     | e # r \<Rightarrow>
         (let ds = (if r \<noteq> [] \<and> (hd r = CHR ''+'' \<or> hd r = CHR ''-'') then tl r else r) in
          if ds \<noteq> [] \<and> list_all (is_digit 10) ds
          then Some (if r \<noteq> [] \<and> hd r = CHR ''-'' then - int (digits_value 10 ds)
                     else int (digits_value 10 ds))
          else None))"

definition scale10 :: "rat \<Rightarrow> int \<Rightarrow> rat" where
  "scale10 m e = (if 0 \<le> e then m * 10 ^ nat e else m / 10 ^ nat (- e))"

definition unsigned_decimal :: "string \<Rightarrow> rat option" where
  "unsigned_decimal s =
    (let ip = takeWhile (is_digit 10) s;
         r1 = dropWhile (is_digit 10) s;
         dot = (r1 \<noteq> [] \<and> hd r1 = CHR ''.'');
         fp = (if dot then takeWhile (is_digit 10) (tl r1) else []);
         r2 = (if dot then dropWhile (is_digit 10) (tl r1) else r1)
     in if ip = [] \<and> fp = [] then None
        else if r2 \<noteq> [] \<and> hd r2 \<noteq> CHR ''e'' \<and> hd r2 \<noteq> CHR ''E'' then None
        else (case exponent_part r2 of
                None \<Rightarrow> None
              | Some e \<Rightarrow>
                  Some (scale10 (of_nat (digits_value 10 ip)
                                 + of_nat (digits_value 10 fp) / 10 ^ length fp) e)))"

definition signed_decimal :: "string \<Rightarrow> number" where
  "signed_decimal s =
    (let neg = (s \<noteq> [] \<and> hd s = CHR ''-'');
         u = (if s \<noteq> [] \<and> (hd s = CHR ''+'' \<or> hd s = CHR ''-'') then tl s else s)
     in if u = ''Infinity'' then (if neg then NegInf else PosInf)
        else (case unsigned_decimal u of
                None \<Rightarrow> NaN
              | Some v \<Rightarrow> Fin (if neg then - v else v)))"

definition StringToNumber :: "string \<Rightarrow> number" where
  "StringToNumber s =
    (let t = trim s in
     if t = [] then Fin 0
     else if take 2 t = ''0x'' \<or> take 2 t = ''0X'' then radix_literal 16 (drop 2 t)
     else if take 2 t = ''0o'' \<or> take 2 t = ''0O'' then radix_literal 8 (drop 2 t)
     else if take 2 t = ''0b'' \<or> take 2 t = ''0B'' then radix_literal 2 (drop 2 t)
     else signed_decimal t)"









section \<open>Persisted state\<close>

text \<open>
  A value read from storage is whatever \<open>JSON.parse\<close> built: the TypeScript type given to
  \<open>safeParse\<close> is not checked at run time. Such values are trees of type \<open>json\<close>; an
  object keeps its members in the order they were written.
\<close>

datatype json =
  JNull | JBool bool | JNum number | JStr string | JArr "json list" | JObj "(string \<times> json) list"

datatype SyntaxError = SyntaxError

text \<open>
  \<open>JSON.parse\<close>, by recursive descent over the JSON grammar. The fuel bounds the depth
  of the descent and is taken larger than the text is long. An escape \<open>\\uXXXX\<close> stands
  for the UTF-8 bytes of its code unit.
\<close>

definition is_json_space :: "char \<Rightarrow> bool" where
  "is_json_space c = (of_char c \<in> {9, 10, 13, 32 :: nat})"

definition skip_ws :: "string \<Rightarrow> string" where
  "skip_ws s = dropWhile is_json_space s"

definition utf8 :: "nat \<Rightarrow> string" where
  "utf8 n =
    (if n < 128 then [char_of n]
     else if n < 2048 then [char_of (192 + n div 64), char_of (128 + n mod 64)]
     else [char_of (224 + n div 4096), char_of (128 + (n div 64) mod 64), char_of (128 + n mod 64)])"

definition escape_char :: "char \<Rightarrow> char option" where
  "escape_char e =
    (if e = CHR 0x22 \<or> e = CHR 0x5C \<or> e = CHR ''/'' then Some e
     else if e = CHR ''b'' then Some (CHR 0x08)
     else if e = CHR ''f'' then Some (CHR 0x0C)
     else if e = CHR ''n'' then Some (CHR 0x0A)
     else if e = CHR ''r'' then Some (CHR 0x0D)
     else if e = CHR ''t'' then Some (CHR 0x09)
     else None)"

definition prepend :: "string \<Rightarrow> (string \<times> string) option \<Rightarrow> (string \<times> string) option" where
  "prepend p r = (case r of None \<Rightarrow> None | Some (t, rest) \<Rightarrow> Some (p @ t, rest))"

fun parse_chars :: "string \<Rightarrow> (string \<times> string) option" where
  "parse_chars [] = None"
| "parse_chars (c # cs) =
    (if c = CHR 0x22 then Some ([], cs)
     else if (of_char c :: nat) < 32 then None
     else if c = CHR 0x5C then
       (if cs = [] then None
        else if hd cs = CHR ''u'' then
          (if 4 \<le> length (tl cs) \<and> list_all (is_digit 16) (take 4 (tl cs))
           then prepend (utf8 (digits_value 16 (take 4 (tl cs)))) (parse_chars (drop 5 cs))
           else None)
        else (case escape_char (hd cs) of
                None \<Rightarrow> None
              | Some ch \<Rightarrow> prepend [ch] (parse_chars (tl cs))))
     else prepend [c] (parse_chars cs))"

definition parse_number :: "string \<Rightarrow> (number \<times> string) option" where
  "parse_number s =
    (let neg = (s \<noteq> [] \<and> hd s = CHR ''-'');
         s1 = (if neg then tl s else s);
         ip = takeWhile (is_digit 10) s1;
         r1 = dropWhile (is_digit 10) s1;
         dot = (r1 \<noteq> [] \<and> hd r1 = CHR ''.'');
         fp = (if dot then takeWhile (is_digit 10) (tl r1) else []);
         r2 = (if dot then dropWhile (is_digit 10) (tl r1) else r1);
         ex = (r2 \<noteq> [] \<and> (hd r2 = CHR ''e'' \<or> hd r2 = CHR ''E''));
         r3 = (if ex \<and> tl r2 \<noteq> [] \<and> (hd (tl r2) = CHR ''+'' \<or> hd (tl r2) = CHR ''-'')
               then tl (tl r2) else tl r2);
         ep = (if ex then takeWhile (is_digit 10) r3 else []);
         r4 = (if ex then dropWhile (is_digit 10) r3 else r2);
         e = (if ex \<and> tl r2 \<noteq> [] \<and> hd (tl r2) = CHR ''-'' then - int (digits_value 10 ep)
              else int (digits_value 10 ep));
         v = scale10 (of_nat (digits_value 10 ip) + of_nat (digits_value 10 fp) / 10 ^ length fp) e
     in if ip = [] \<or> (1 < length ip \<and> hd ip = CHR ''0'') \<or> (dot \<and> fp = []) \<or> (ex \<and> ep = [])
        then None
        else Some (Fin (if neg then - v else v), r4))"

fun parse_value :: "nat \<Rightarrow> string \<Rightarrow> (json \<times> string) option"
  and parse_elements :: "nat \<Rightarrow> string \<Rightarrow> (json list \<times> string) option"
  and parse_members :: "nat \<Rightarrow> string \<Rightarrow> ((string \<times> json) list \<times> string) option" where
  "parse_value 0 s = None"
| "parse_value (Suc n) s =
    (let t = skip_ws s in
     if t = [] then None
     else if take 4 t = ''null'' then Some (JNull, drop 4 t)
     else if take 4 t = ''true'' then Some (JBool True, drop 4 t)
     else if take 5 t = ''false'' then Some (JBool False, drop 5 t)
     else if hd t = CHR 0x22 then
       (case parse_chars (tl t) of None \<Rightarrow> None | Some (str, r) \<Rightarrow> Some (JStr str, r))
     else if hd t = CHR ''['' then
       (if skip_ws (tl t) \<noteq> [] \<and> hd (skip_ws (tl t)) = CHR '']''
        then Some (JArr [], tl (skip_ws (tl t)))
        else (case parse_elements n (tl t) of None \<Rightarrow> None | Some (vs, r) \<Rightarrow> Some (JArr vs, r)))
     else if hd t = CHR ''{'' then
       (if skip_ws (tl t) \<noteq> [] \<and> hd (skip_ws (tl t)) = CHR ''}''
        then Some (JObj [], tl (skip_ws (tl t)))
        else (case parse_members n (tl t) of None \<Rightarrow> None | Some (kvs, r) \<Rightarrow> Some (JObj kvs, r)))
     else (case parse_number t of None \<Rightarrow> None | Some (x, r) \<Rightarrow> Some (JNum x, r)))"
| "parse_elements 0 s = None"
| "parse_elements (Suc n) s =
    (case parse_value n s of
       None \<Rightarrow> None
     | Some (v, r) \<Rightarrow>
         (let t = skip_ws r in
          if t = [] then None
          else if hd t = CHR '']'' then Some ([v], tl t)
          else if hd t = CHR '','' then
            (case parse_elements n (tl t) of None \<Rightarrow> None | Some (vs, r') \<Rightarrow> Some (v # vs, r'))
          else None))"
| "parse_members 0 s = None"
| "parse_members (Suc n) s =
    (let t = skip_ws s in
     if t = [] \<or> hd t \<noteq> CHR 0x22 then None
     else (case parse_chars (tl t) of
             None \<Rightarrow> None
           | Some (k, r) \<Rightarrow>
               if skip_ws r = [] \<or> hd (skip_ws r) \<noteq> CHR '':'' then None
               else (case parse_value n (tl (skip_ws r)) of
                       None \<Rightarrow> None
                     | Some (v, r') \<Rightarrow>
                         (let u = skip_ws r' in
                          if u = [] then None
                          else if hd u = CHR ''}'' then Some ([(k, v)], tl u)
                          else if hd u = CHR '','' then
                            (case parse_members n (tl u) of
                               None \<Rightarrow> None
                             | Some (kvs, r'') \<Rightarrow> Some ((k, v) # kvs, r''))
                          else None))))"

definition JSON_parse :: "string \<Rightarrow> SyntaxError + json" where
  "JSON_parse s =
    (case parse_value (2 * length s + 2) s of
       None \<Rightarrow> Inl SyntaxError
     | Some (v, r) \<Rightarrow> if skip_ws r = [] then Inr v else Inl SyntaxError)"

definition STORAGE_KEY :: string where
  "STORAGE_KEY = ''drc_v1''"

text \<open>\<open>safeParse\<close>: the argument is \<open>None\<close> for \<open>null\<close>; the result \<open>JNull\<close> is \<open>null\<close>.\<close>

definition safeParse :: "string option \<Rightarrow> json" where
  "safeParse s =
    (case s of
       None \<Rightarrow> JNull
     | Some t \<Rightarrow>
         if t = [] then JNull
         else (case JSON_parse t of Inl err \<Rightarrow> JNull | Inr v \<Rightarrow> v))"

text \<open>
  \<open>saved?.key\<close> for one of the four keys of the persisted state, which no built-in
  prototype defines: \<open>None\<close> is \<open>undefined\<close>. Of the members of an object with one name the
  last one counts. \<open>a ?? b\<close> is \<open>b\<close> when \<open>a\<close> is \<open>null\<close> or \<open>undefined\<close>.
\<close>

definition get_prop :: "json \<Rightarrow> string \<Rightarrow> json option" where
  "get_prop v k = (case v of JObj kvs \<Rightarrow> map_of (rev kvs) k | _ \<Rightarrow> None)"

definition nullish :: "json option \<Rightarrow> json \<Rightarrow> json" where
  "nullish a b = (case a of None \<Rightarrow> b | Some JNull \<Rightarrow> b | Some v \<Rightarrow> v)"

definition DEFAULT_MACROS :: json where
  "DEFAULT_MACROS =
     JObj [(''calories'', JBool True), (''protein'', JBool True),
           (''carbs'', JBool False), (''fat'', JBool False)]"

text \<open>
  \<open>initial\<close>: the argument is \<open>None\<close> where there is no \<open>window\<close>, and the local storage
  otherwise.
\<close>

definition initial :: "(string \<rightharpoonup> string) option \<Rightarrow> json" where
  "initial window =
    (case window of
       None \<Rightarrow>
         JObj [(''history'', JArr []), (''planDays'', JNum (Fin 100)),
               (''strictness'', JStr ''Standard''), (''trackedMacros'', DEFAULT_MACROS)]
     | Some localStorage \<Rightarrow>
         (let saved = safeParse (localStorage STORAGE_KEY) in
          JObj [(''history'', nullish (get_prop saved ''history'') (JArr [])),
                (''planDays'', nullish (get_prop saved ''planDays'') (JNum (Fin 100))),
                (''strictness'', nullish (get_prop saved ''strictness'') (JStr ''Standard'')),
                (''trackedMacros'', nullish (get_prop saved ''trackedMacros'') DEFAULT_MACROS)]))"

text \<open>
  The state of the component, and the effect that mirrors it to local storage. The
  payload is the object literal of the four persisted state variables; the draft is
  state of the component too, but no part of the payload. \<open>JSON.stringify\<close> is a
  parameter of the effect.
\<close>

datatype MacroKey = MacroCalories | MacroProtein | MacroCarbs | MacroFat

record PersistedState =
  history :: "Checkin list"
  planDays :: number
  strictness :: Strictness
  trackedMacros :: "MacroKey \<Rightarrow> bool"

record AppState = PersistedState +
  draft :: "Checkin option"

definition ToggleItem_json :: "ToggleItem \<Rightarrow> json" where
  "ToggleItem_json t = JObj [(''label'', JStr (label t)), (''value'', JBool (value t))]"

definition Virtues_json :: "Virtues \<Rightarrow> json" where
  "Virtues_json v =
     JObj [(''study'', JBool (study v)), (''gym'', JBool (gym v)), (''meditate'', JBool (meditate v))]"

definition Checkin_json :: "Checkin \<Rightarrow> json" where
  "Checkin_json d =
     JObj [(''date'', JStr (date d)),
           (''loadItems'', JArr (map ToggleItem_json (loadItems d))),
           (''virtues'', Virtues_json (virtues d)),
           (''sleepHours'', JNum (sleepHours d)),
           (''sleepQuality'', JNum (sleepQuality d)),
           (''caffeineMg'', JNum (caffeineMg d)),
           (''socialMinutes'', JNum (socialMinutes d)),
           (''workout'', JBool (workout d)),
           (''mood'', JNum (mood d)),
           (''energy'', JNum (energy d)),
           (''junkFood'', JBool (junkFood d)),
           (''notes'', JStr (notes d)),
           (''calories'', JNum (calories d)),
           (''proteinG'', JNum (proteinG d)),
           (''carbsG'', JNum (carbsG d)),
           (''fatG'', JNum (fatG d))]"

fun Strictness_json :: "Strictness \<Rightarrow> json" where
  "Strictness_json Light = JStr ''Light''"
| "Strictness_json Standard = JStr ''Standard''"
| "Strictness_json Strictness.Hard = JStr ''Hard''"

definition trackedMacros_json :: "(MacroKey \<Rightarrow> bool) \<Rightarrow> json" where
  "trackedMacros_json m =
     JObj [(''calories'', JBool (m MacroCalories)), (''protein'', JBool (m MacroProtein)),
           (''carbs'', JBool (m MacroCarbs)), (''fat'', JBool (m MacroFat))]"

definition PersistedState_json :: "PersistedState \<Rightarrow> json" where
  "PersistedState_json p =
     JObj [(''history'', JArr (map Checkin_json (history p))),
           (''planDays'', JNum (planDays p)),
           (''strictness'', Strictness_json (strictness p)),
           (''trackedMacros'', trackedMacros_json (trackedMacros p))]"

definition payload :: "AppState \<Rightarrow> PersistedState" where
  "payload st =
     \<lparr>history = history st, planDays = planDays st, strictness = strictness st,
      trackedMacros = trackedMacros st\<rparr>"

definition persist ::
  "(json \<Rightarrow> string) \<Rightarrow> AppState \<Rightarrow> (string \<rightharpoonup> string) \<Rightarrow> (string \<rightharpoonup> string)" where
  "persist JSON_stringify st localStorage =
     localStorage(STORAGE_KEY \<mapsto> JSON_stringify (PersistedState_json (payload st)))"

definition json_keys :: "json \<Rightarrow> string list" where
  "json_keys v = (case v of JObj kvs \<Rightarrow> map fst kvs | _ \<Rightarrow> [])"

definition makeDefaultCheckin :: "string \<Rightarrow> Checkin" where
  "makeDefaultCheckin dt =
     \<lparr>date = dt, loadItems = [],
      virtues = \<lparr>study = False, gym = False, meditate = False\<rparr>,
      sleepHours = Fin (15 / 2), sleepQuality = Fin 7, caffeineMg = Fin 0,
      socialMinutes = Fin 0, workout = False, mood = Fin 7, energy = Fin 7,
      junkFood = False, notes = '''', calories = Fin 0, proteinG = Fin 0,
      carbsG = Fin 0, fatG = Fin 0\<rparr>"

section \<open>Notions used in the statements\<close>

text \<open>
  A number is finite when it is neither \<open>NaN\<close> nor infinite; a check-in record is valid
  when its numeric fields are finite; a score is an integer from 0 to 100.
\<close>

fun is_finite :: "number \<Rightarrow> bool" where
  "is_finite (Fin a) = True"
| "is_finite x = False"

definition valid_checkin :: "Checkin \<Rightarrow> bool" where
  "valid_checkin d =
    (is_finite (sleepHours d) \<and> is_finite (sleepQuality d) \<and> is_finite (caffeineMg d) \<and>
     is_finite (socialMinutes d) \<and> is_finite (mood d) \<and> is_finite (energy d) \<and>
     is_finite (calories d) \<and> is_finite (proteinG d) \<and> is_finite (carbsG d) \<and>
     is_finite (fatG d))"

fun is_score :: "number \<Rightarrow> bool" where
  "is_score (Fin r) = (r = of_int \<lfloor>r\<rfloor> \<and> 0 \<le> r \<and> r \<le> 100)"
| "is_score x = False"

text \<open>
  The order of the numbers in which monotonicity is stated: it is \<open>\<le>\<close> on the numbers
  other than \<open>NaN\<close>, and \<open>NaN\<close> is comparable with itself only.
\<close>

definition num_leq :: "number \<Rightarrow> number \<Rightarrow> bool" where
  "num_leq x y = (x = y \<or> num_lt x y)"

fun fin_or_nan :: "number \<Rightarrow> bool" where
  "fin_or_nan NegInf = False"
| "fin_or_nan PosInf = False"
| "fin_or_nan x = True"

text \<open>The default state, and the field names of a check-in record.\<close>

definition default_state :: json where
  "default_state =
     JObj [(''history'', JArr []), (''planDays'', JNum (Fin 100)),
           (''strictness'', JStr ''Standard''),
           (''trackedMacros'', JObj [(''calories'', JBool True), (''protein'', JBool True),
              (''carbs'', JBool False), (''fat'', JBool False)])]"

definition Checkin_keys :: "string list" where
  "Checkin_keys =
     [''date'', ''loadItems'', ''virtues'', ''sleepHours'', ''sleepQuality'', ''caffeineMg'',
      ''socialMinutes'', ''workout'', ''mood'', ''energy'', ''junkFood'', ''notes'', ''calories'',
      ''proteinG'', ''carbsG'', ''fatG'']"

section \<open>Arithmetic of numbers\<close>







section \<open>The load score\<close>



text \<open>
  C10. Two check-in records that agree on social minutes, caffeine, junk food, load items,
  virtues, workout and sleep hours have the same load score, whatever their date, sleep
  quality, mood, energy, notes and nutrition fields are.
\<close>

theorem computeDLS_depends_on_seven_fields:
  assumes "socialMinutes a = socialMinutes b" and "caffeineMg a = caffeineMg b"
    and "junkFood a = junkFood b" and "loadItems a = loadItems b" and "virtues a = virtues b"
    and "workout a = workout b" and "sleepHours a = sleepHours b"
  shows "computeDLS a = computeDLS b"
  using assms by (simp add: computeDLS_def)

theorem computeDLS_depends_on_seven_fields_witness:
  "computeDLS (makeDefaultCheckin ''2024-01-01'')
   = computeDLS ((makeDefaultCheckin ''2025-12-31'')\<lparr>sleepQuality := Fin 3, mood := Fin 2,
        energy := Fin 9, notes := ''late'', calories := Fin 2100, proteinG := Fin 120,
        carbsG := Fin 250, fatG := Fin 70\<rparr>)
   \<and> date (makeDefaultCheckin ''2024-01-01'') \<noteq> date (makeDefaultCheckin ''2025-12-31'')"
  using computeDLS_depends_on_seven_fields[of "makeDefaultCheckin ''2024-01-01''"
     "(makeDefaultCheckin ''2025-12-31'')\<lparr>sleepQuality := Fin 3, mood := Fin 2,
        energy := Fin 9, notes := ''late'', calories := Fin 2100, proteinG := Fin 120,
        carbsG := Fin 250, fatG := Fin 70\<rparr>"]
  by (simp add: makeDefaultCheckin_def)

section \<open>Range of the scores\<close>

lemma is_finite_iff: "is_finite x \<longleftrightarrow> (\<exists>a. x = Fin a)"
  by (cases x) simp_all

lemma clamp_Fin: "clamp (Fin a) (Fin lo) (Fin hi) = Fin (max lo (min hi a))"
  by (simp add: clamp_def max_def min_def)

lemma is_finite_add: "is_finite a \<Longrightarrow> is_finite b \<Longrightarrow> is_finite (num_add a b)"
  by (auto simp: is_finite_iff)

lemma is_finite_sub: "is_finite a \<Longrightarrow> is_finite b \<Longrightarrow> is_finite (num_sub a b)"
  by (auto simp: is_finite_iff num_sub_def)

lemma is_finite_mul: "is_finite a \<Longrightarrow> is_finite b \<Longrightarrow> is_finite (num_mul a b)"
  by (auto simp: is_finite_iff)

lemma is_finite_div: "is_finite a \<Longrightarrow> b \<noteq> 0 \<Longrightarrow> is_finite (num_div a (Fin b))"
  by (auto simp: is_finite_iff)

lemma is_finite_clamp: "is_finite x \<Longrightarrow> is_finite (clamp x (Fin lo) (Fin hi))"
  by (auto simp: is_finite_iff clamp_Fin)

lemma is_finite_of_length: "is_finite (of_length n)"
  by (simp add: of_length_def)

lemma is_finite_virtuesCount: "is_finite (virtuesCount v)"
  by (simp add: virtuesCount_def)

lemmas is_finite_intros =
  is_finite_add is_finite_sub is_finite_mul is_finite_div is_finite_clamp is_finite_of_length
  is_finite_virtuesCount

lemma is_score_clamp_round:
  assumes "is_finite x"
  shows "is_score (clamp (Math_round x) (Fin 0) (Fin 100))"
proof -
  obtain r where x: "x = Fin r" using assms by (auto simp: is_finite_iff)
  have "max 0 (min 100 (of_int \<lfloor>r + 1 / 2\<rfloor> :: rat)) = of_int (max 0 (min 100 \<lfloor>r + 1 / 2\<rfloor>))"
    by (simp add: max_def min_def)
  then show ?thesis
    by (simp add: x clamp_Fin del: of_int_max of_int_min)
qed

lemma computeDLS_is_score:
  assumes "valid_checkin d"
  shows "is_score (computeDLS d)"
proof -
  have "is_finite (socialMinutes d)" and "is_finite (caffeineMg d)"
    using assms by (simp_all add: valid_checkin_def)
  then show ?thesis
    unfolding computeDLS_def Let_def
    by (intro is_score_clamp_round is_finite_intros) simp_all
qed

lemma foldl_add_finite:
  assumes "\<forall>x \<in> set xs. is_finite (f x)" and "is_finite a0"
  shows "is_finite (foldl (\<lambda>a x. num_add a (f x)) a0 xs)"
  using assms by (induction xs arbitrary: a0) (simp_all add: is_finite_add)

lemma computeNEI_is_score:
  assumes "list_all valid_checkin h"
  shows "is_score (computeNEI h)"
proof (cases "slice_last 7 h = []")
  case True
  then show ?thesis by (simp add: computeNEI_def)
next
  case False
  let ?w = "slice_last 7 h"
  have "set ?w \<subseteq> set h" by (simp add: slice_last_def set_drop_subset)
  with assms have v: "\<forall>x \<in> set ?w. valid_checkin x" by (auto simp: list_all_iff)
  then have "\<forall>x \<in> set ?w. is_finite (energy x)"
    by (simp add: valid_checkin_def)
  then have e: "is_finite (foldl (\<lambda>a x. num_add a (energy x)) (Fin 0) ?w)"
    by (intro foldl_add_finite) simp_all
  have n: "(of_nat (length ?w) :: rat) \<noteq> 0" using False by simp
  have s0: "is_finite (num_mul (num_div (foldl (\<lambda>a x. num_add a (energy x)) (Fin 0) ?w)
     (of_length (length ?w))) (Fin 10))"
    unfolding of_length_def using e n by (intro is_finite_intros) simp_all
  show ?thesis
    unfolding computeNEI_def Let_def using False
    by (auto intro!: is_score_clamp_round is_finite_add is_finite_sub s0)
qed

text \<open>
  C5. For a check-in record whose numeric fields are finite the load score is an integer
  from 0 to 100, and for a history of such records so is the energy index.
\<close>

theorem scores_in_range:
  "(valid_checkin d \<longrightarrow> is_score (computeDLS d)) \<and>
   (list_all valid_checkin h \<longrightarrow> is_score (computeNEI h))"
  by (simp add: computeDLS_is_score computeNEI_is_score)

theorem scores_in_range_witness:
  "valid_checkin ((makeDefaultCheckin ''2024-01-01'')\<lparr>socialMinutes := Fin 95, junkFood := True\<rparr>) \<and>
   is_score (computeDLS ((makeDefaultCheckin ''2024-01-01'')\<lparr>socialMinutes := Fin 95, junkFood := True\<rparr>)) \<and>
   list_all valid_checkin [makeDefaultCheckin ''2024-01-01'', (makeDefaultCheckin ''2024-01-02'')\<lparr>energy := Fin 4\<rparr>] \<and>
   is_score (computeNEI [makeDefaultCheckin ''2024-01-01'', (makeDefaultCheckin ''2024-01-02'')\<lparr>energy := Fin 4\<rparr>])"
  using scores_in_range[of "(makeDefaultCheckin ''2024-01-01'')\<lparr>socialMinutes := Fin 95, junkFood := True\<rparr>"
      "[makeDefaultCheckin ''2024-01-01'', (makeDefaultCheckin ''2024-01-02'')\<lparr>energy := Fin 4\<rparr>]"]
  by (simp add: valid_checkin_def makeDefaultCheckin_def)

section \<open>Monotonicity of the load score\<close>

lemma num_leq_refl: "num_leq x x"
  by (simp add: num_leq_def)

lemma num_leq_Fin: "num_leq (Fin a) (Fin b) \<longleftrightarrow> a \<le> b"
  by (auto simp: num_leq_def)

lemma fin_or_nan_cases: "fin_or_nan x \<longleftrightarrow> x = NaN \<or> (\<exists>a. x = Fin a)"
  by (cases x) simp_all

lemma num_leq_NaN: "num_leq NaN y \<longleftrightarrow> y = NaN" "num_leq x NaN \<longleftrightarrow> x = NaN"
  by (cases y; auto simp: num_leq_def) (cases x; auto simp: num_leq_def)

text \<open>The clamped, scaled contribution of an input is monotone in the input.\<close>

lemma scaled_mono:
  assumes "num_leq x y" and "0 < k" and "0 < m"
  shows "num_leq (num_mul (num_div x (Fin k)) (Fin m)) (num_mul (num_div y (Fin k)) (Fin m))"
  using assms
  by (cases x; cases y)
     (auto simp: num_leq_def divide_strict_right_mono mult_strict_right_mono sgn_if)

lemma clamp_mono:
  assumes "num_leq x y" and "lo \<le> hi"
  shows "num_leq (clamp x (Fin lo) (Fin hi)) (clamp y (Fin lo) (Fin hi))"
  using assms by (cases x; cases y) (auto simp: num_leq_def clamp_def)

lemma fin_or_nan_clamp: "fin_or_nan (clamp x (Fin lo) (Fin hi))"
  by (cases x) (simp_all add: clamp_def)

lemma fin_or_nan_Fin_if: "fin_or_nan (if b then Fin x else Fin y)"
  by simp

lemma fin_or_nan_add: "fin_or_nan a \<Longrightarrow> fin_or_nan b \<Longrightarrow> fin_or_nan (num_add a b)"
  by (auto simp: fin_or_nan_cases)

lemma fin_or_nan_sub: "fin_or_nan a \<Longrightarrow> fin_or_nan b \<Longrightarrow> fin_or_nan (num_sub a b)"
  by (auto simp: fin_or_nan_cases num_sub_def)

lemma add_mono_left:
  assumes "num_leq a b" and "fin_or_nan a" and "fin_or_nan b" and "fin_or_nan c"
  shows "num_leq (num_add a c) (num_add b c)"
  using assms by (auto simp: fin_or_nan_cases num_leq_Fin num_leq_NaN num_leq_refl)

lemma add_mono_right:
  assumes "num_leq a b" and "fin_or_nan a" and "fin_or_nan b" and "fin_or_nan c"
  shows "num_leq (num_add c a) (num_add c b)"
  using assms by (auto simp: fin_or_nan_cases num_leq_Fin num_leq_NaN num_leq_refl)

lemma sub_mono_left:
  assumes "num_leq a b" and "fin_or_nan a" and "fin_or_nan b" and "fin_or_nan c"
  shows "num_leq (num_sub a c) (num_sub b c)"
  using assms by (auto simp: fin_or_nan_cases num_leq_Fin num_leq_NaN num_leq_refl num_sub_def)

lemma sub_anti_right:
  assumes "num_leq a b" and "fin_or_nan a" and "fin_or_nan b" and "fin_or_nan c"
  shows "num_leq (num_sub c b) (num_sub c a)"
  using assms by (auto simp: fin_or_nan_cases num_leq_Fin num_leq_NaN num_leq_refl num_sub_def)

lemma round_mono:
  assumes "num_leq a b"
  shows "num_leq (Math_round a) (Math_round b)"
proof (cases a)
  case (Fin x)
  show ?thesis
  proof (cases b)
    case (Fin y)
    with \<open>a = Fin x\<close> assms have "x \<le> y" by (simp add: num_leq_Fin)
    then have "\<lfloor>x + 1 / 2\<rfloor> \<le> \<lfloor>y + 1 / 2\<rfloor>" by (intro floor_mono) simp
    then show ?thesis using Fin \<open>a = Fin x\<close> by (simp add: num_leq_Fin)
  qed (use assms \<open>a = Fin x\<close> in \<open>simp_all add: num_leq_def\<close>)
qed (use assms in \<open>cases b; simp add: num_leq_def\<close>)+

lemma score_mono:
  assumes "num_leq a b"
  shows "num_leq (clamp (Math_round a) (Fin 0) (Fin 100)) (clamp (Math_round b) (Fin 0) (Fin 100))"
  by (intro clamp_mono round_mono assms) simp

lemmas fin_or_nan_intros = fin_or_nan_clamp fin_or_nan_Fin_if fin_or_nan_add fin_or_nan_sub

lemma num_mul_mono:
  assumes "num_leq x y" and "0 < m"
  shows "num_leq (num_mul x (Fin m)) (num_mul y (Fin m))"
  using assms by (cases x; cases y) (auto simp: num_leq_def sgn_if)

lemma of_length_mono: "m \<le> n \<Longrightarrow> num_leq (of_length m) (of_length n)"
  by (simp add: of_length_def num_leq_Fin)

lemma goodSleep_anti:
  assumes "num_leq h h'"
  shows "num_leq (if num_ge h' (Fin (15 / 2)) then Fin (- 10) else Fin 0)
                 (if num_ge h (Fin (15 / 2)) then Fin (- 10) else Fin 0)"
  using assms by (cases h; cases h') (auto simp: num_leq_def num_ge_def)

lemma computeDLS_mono_socialMinutes:
  assumes "num_leq s s'"
  shows "num_leq (computeDLS (d\<lparr>socialMinutes := s\<rparr>)) (computeDLS (d\<lparr>socialMinutes := s'\<rparr>))"
  unfolding computeDLS_def Let_def
  by (simp split del: if_split, intro score_mono sub_mono_left add_mono_left clamp_mono scaled_mono assms
      fin_or_nan_intros) simp_all

lemma computeDLS_mono_caffeineMg:
  assumes "num_leq c c'"
  shows "num_leq (computeDLS (d\<lparr>caffeineMg := c\<rparr>)) (computeDLS (d\<lparr>caffeineMg := c'\<rparr>))"
  unfolding computeDLS_def Let_def
  by (simp split del: if_split, intro score_mono sub_mono_left add_mono_left add_mono_right clamp_mono scaled_mono
      assms fin_or_nan_intros) simp_all

lemma computeDLS_mono_junkFood:
  "num_leq (computeDLS (d\<lparr>junkFood := False\<rparr>)) (computeDLS (d\<lparr>junkFood := True\<rparr>))"
  unfolding computeDLS_def Let_def
  by (simp split del: if_split, intro score_mono sub_mono_left add_mono_left add_mono_right fin_or_nan_intros)
     (simp_all add: num_leq_Fin)

lemma computeDLS_mono_loadItems:
  assumes "length (filter value l) \<le> length (filter value l')"
  shows "num_leq (computeDLS (d\<lparr>loadItems := l\<rparr>)) (computeDLS (d\<lparr>loadItems := l'\<rparr>))"
  unfolding computeDLS_def Let_def
  by (simp split del: if_split, intro score_mono sub_mono_left add_mono_left add_mono_right clamp_mono num_mul_mono
      of_length_mono assms fin_or_nan_intros) simp_all

lemma computeDLS_anti_virtues:
  assumes "num_leq (virtuesCount v) (virtuesCount v')"
  shows "num_leq (computeDLS (d\<lparr>virtues := v'\<rparr>)) (computeDLS (d\<lparr>virtues := v\<rparr>))"
  unfolding computeDLS_def Let_def
  by (simp split del: if_split, intro score_mono sub_anti_right clamp_mono num_mul_mono assms fin_or_nan_intros)
     simp_all

lemma computeDLS_anti_workout:
  "num_leq (computeDLS (d\<lparr>workout := True\<rparr>)) (computeDLS (d\<lparr>workout := False\<rparr>))"
  unfolding computeDLS_def Let_def
  by (simp split del: if_split, intro score_mono sub_mono_left add_mono_left add_mono_right fin_or_nan_intros)
     (simp_all add: num_leq_Fin)

lemma computeDLS_anti_sleepHours:
  assumes "num_leq h h'"
  shows "num_leq (computeDLS (d\<lparr>sleepHours := h'\<rparr>)) (computeDLS (d\<lparr>sleepHours := h\<rparr>))"
  unfolding computeDLS_def Let_def
  by (simp split del: if_split, intro score_mono sub_mono_left add_mono_right goodSleep_anti
      assms fin_or_nan_intros)


text \<open>
  C6. The load score is monotone in each input, the other fields held fixed: it does not
  decrease when social minutes or caffeine grow, when junk food goes from false to true, or
  when more load items are on; it does not increase when more virtues are on, when workout
  goes from false to true, or when the hours of sleep grow. The scores are compared in
  the order \<open>num_leq\<close>; no input needs to be non-negative for this.
\<close>

theorem computeDLS_monotone:
  "(num_leq s s' \<longrightarrow>
      num_leq (computeDLS (d\<lparr>socialMinutes := s\<rparr>)) (computeDLS (d\<lparr>socialMinutes := s'\<rparr>))) \<and>
   (num_leq c c' \<longrightarrow>
      num_leq (computeDLS (d\<lparr>caffeineMg := c\<rparr>)) (computeDLS (d\<lparr>caffeineMg := c'\<rparr>))) \<and>
   num_leq (computeDLS (d\<lparr>junkFood := False\<rparr>)) (computeDLS (d\<lparr>junkFood := True\<rparr>)) \<and>
   (length (filter value l) \<le> length (filter value l') \<longrightarrow>
      num_leq (computeDLS (d\<lparr>loadItems := l\<rparr>)) (computeDLS (d\<lparr>loadItems := l'\<rparr>))) \<and>
   (num_leq (virtuesCount v) (virtuesCount v') \<longrightarrow>
      num_leq (computeDLS (d\<lparr>virtues := v'\<rparr>)) (computeDLS (d\<lparr>virtues := v\<rparr>))) \<and>
   num_leq (computeDLS (d\<lparr>workout := True\<rparr>)) (computeDLS (d\<lparr>workout := False\<rparr>)) \<and>
   (num_leq h h' \<longrightarrow>
      num_leq (computeDLS (d\<lparr>sleepHours := h'\<rparr>)) (computeDLS (d\<lparr>sleepHours := h\<rparr>)))"
  by (intro conjI impI computeDLS_mono_socialMinutes computeDLS_mono_caffeineMg
      computeDLS_mono_junkFood computeDLS_mono_loadItems computeDLS_anti_virtues
      computeDLS_anti_workout computeDLS_anti_sleepHours)

theorem computeDLS_monotone_witness:
  "num_leq (Fin 10) (Fin 50) \<and>
   num_leq (computeDLS ((makeDefaultCheckin ''2024-01-01'')\<lparr>socialMinutes := Fin 10\<rparr>))
           (computeDLS ((makeDefaultCheckin ''2024-01-01'')\<lparr>socialMinutes := Fin 50\<rparr>)) \<and>
   num_leq (Fin 100) (Fin 300) \<and>
   num_leq (computeDLS ((makeDefaultCheckin ''2024-01-01'')\<lparr>caffeineMg := Fin 100\<rparr>))
           (computeDLS ((makeDefaultCheckin ''2024-01-01'')\<lparr>caffeineMg := Fin 300\<rparr>)) \<and>
   length (filter value [\<lparr>label = ''Sugar'', value = False\<rparr>])
     \<le> length (filter value [\<lparr>label = ''Sugar'', value = True\<rparr>]) \<and>
   num_leq (computeDLS ((makeDefaultCheckin ''2024-01-01'')\<lparr>loadItems := [\<lparr>label = ''Sugar'', value = False\<rparr>]\<rparr>))
           (computeDLS ((makeDefaultCheckin ''2024-01-01'')\<lparr>loadItems := [\<lparr>label = ''Sugar'', value = True\<rparr>]\<rparr>)) \<and>
   num_leq (virtuesCount \<lparr>study = False, gym = False, meditate = False\<rparr>)
           (virtuesCount \<lparr>study = True, gym = False, meditate = True\<rparr>) \<and>
   num_leq (computeDLS ((makeDefaultCheckin ''2024-01-01'')\<lparr>virtues := \<lparr>study = True, gym = False, meditate = True\<rparr>\<rparr>))
           (computeDLS ((makeDefaultCheckin ''2024-01-01'')\<lparr>virtues := \<lparr>study = False, gym = False, meditate = False\<rparr>\<rparr>)) \<and>
   num_leq (Fin 6) (Fin 8) \<and>
   num_leq (computeDLS ((makeDefaultCheckin ''2024-01-01'')\<lparr>sleepHours := Fin 8\<rparr>))
           (computeDLS ((makeDefaultCheckin ''2024-01-01'')\<lparr>sleepHours := Fin 6\<rparr>))"
  using computeDLS_monotone[of "Fin 10" "Fin 50" "makeDefaultCheckin ''2024-01-01''"
      "Fin 100" "Fin 300" "[\<lparr>label = ''Sugar'', value = False\<rparr>]" "[\<lparr>label = ''Sugar'', value = True\<rparr>]"
      "\<lparr>study = False, gym = False, meditate = False\<rparr>" "\<lparr>study = True, gym = False, meditate = True\<rparr>"
      "Fin 6" "Fin 8"]
  by (simp add: num_leq_def virtuesCount_def)

section \<open>The energy index\<close>












section \<open>The coach tasks\<close>

text \<open>
  C3. \<open>coachTasks\<close> returns three tasks, of level Easy, Medium and Hard in this order, and
  their texts are those of the decision table, for every record, day number and
  strictness.
\<close>

theorem coachTasks_decision_table:
  "map level (coachTasks today n mode) = [Easy, Medium, Level.Hard] \<and>
   map text (coachTasks today n mode)
     = [table_easy n, table_medium today, table_hard today n mode]"
  by (simp add: coachTasks_def Let_def table_easy_def table_medium_def table_hard_def list_ex_iff)

section \<open>Upsert by date\<close>

lemma mset_insert_by: "mset (insert_by cmp x ys) = add_mset x (mset ys)"
  by (induction ys) simp_all

lemma mset_sort_by: "mset (sort_by cmp xs) = mset xs"
  by (induction xs) (simp_all add: sort_by_def mset_insert_by)

lemma by_date_positive: "num_gt (by_date x y) (Fin 0) \<longleftrightarrow> date y \<le> date x"
  by (auto simp: by_date_def num_gt_def)

lemma set_insert_by: "set (insert_by cmp x ys) = insert x (set ys)"
  by (induction ys) auto

lemma sorted_insert_by_date:
  assumes "sorted (map date ys)"
  shows "sorted (map date (insert_by by_date x ys))"
  using assms
proof (induction ys)
  case Nil
  then show ?case by simp
next
  case (Cons y ys)
  show ?case
  proof (cases "date y \<le> date x")
    case True
    with Cons show ?thesis
      by (auto simp: by_date_positive set_insert_by)
  next
    case False
    then have "date x \<le> date y" by simp
    with Cons.prems False show ?thesis
      by (auto simp: by_date_positive)
  qed
qed

lemma sorted_sort_by_date: "sorted (map date (sort_by by_date xs))"
  by (induction xs) (simp_all add: sort_by_def sorted_insert_by_date)

lemma distinct_dates_sort_by:
  "distinct (map date (sort_by by_date xs)) \<longleftrightarrow> distinct (map date xs)"
proof -
  have "mset (map date (sort_by by_date xs)) = mset (map date xs)"
    by (simp add: mset_sort_by)
  then show ?thesis by (rule mset_eq_imp_distinct_iff)
qed

lemma map_date_replace:
  "map date (map (\<lambda>x. if date x = date dr then dr else x) prev) = map date prev"
  by (induction prev) simp_all

text \<open>
  C4. Saving a draft into a history with pairwise distinct dates: when a record of the
  history has the draft's date, the draft takes its place (same length, same dates);
  otherwise the draft is added. Either way the next history holds the draft, has pairwise
  distinct dates and is sorted by date.
\<close>

theorem saveCheckin_upsert:
  assumes "distinct (map date prev)"
  shows "(list_ex (\<lambda>x. date x = date dr) prev \<longrightarrow>
            mset (saveCheckin (Some dr) prev)
              = mset (map (\<lambda>x. if date x = date dr then dr else x) prev) \<and>
            length (saveCheckin (Some dr) prev) = length prev \<and>
            mset (map date (saveCheckin (Some dr) prev)) = mset (map date prev)) \<and>
         (\<not> list_ex (\<lambda>x. date x = date dr) prev \<longrightarrow>
            mset (saveCheckin (Some dr) prev) = mset (prev @ [dr])) \<and>
         dr \<in> set (saveCheckin (Some dr) prev) \<and>
         distinct (map date (saveCheckin (Some dr) prev)) \<and>
         sorted (map date (saveCheckin (Some dr) prev))"
proof (cases "list_ex (\<lambda>x. date x = date dr) prev")
  case True
  let ?next = "map (\<lambda>x. if date x = date dr then dr else x) prev"
  have s: "saveCheckin (Some dr) prev = sort_by by_date ?next"
    using True by (simp add: saveCheckin_def)
  have m: "mset (saveCheckin (Some dr) prev) = mset ?next"
    by (simp add: s mset_sort_by)
  have len: "length (saveCheckin (Some dr) prev) = length prev"
    using mset_eq_length[OF m] by simp
  have dates: "mset (map date (saveCheckin (Some dr) prev)) = mset (map date prev)"
  proof -
    have "mset (map date (sort_by by_date ?next)) = mset (map date ?next)"
      by (simp only: mset_map mset_sort_by)
    then show ?thesis by (simp only: s map_date_replace)
  qed
  have "dr \<in> set ?next" using True by (auto simp: list_ex_iff)
  then have mem: "dr \<in> set (saveCheckin (Some dr) prev)"
    using mset_eq_setD[OF m] by simp
  have "distinct (map date (saveCheckin (Some dr) prev))"
    using assms by (simp add: s distinct_dates_sort_by map_date_replace del: map_map)
  moreover have "sorted (map date (saveCheckin (Some dr) prev))"
    by (simp add: s sorted_sort_by_date)
  ultimately show ?thesis using True m len dates mem by simp
next
  case False
  have s: "saveCheckin (Some dr) prev = sort_by by_date (prev @ [dr])"
    using False by (simp add: saveCheckin_def)
  have m: "mset (saveCheckin (Some dr) prev) = mset (prev @ [dr])"
    by (simp add: s mset_sort_by)
  have mem: "dr \<in> set (saveCheckin (Some dr) prev)"
    using mset_eq_setD[OF m] by simp
  have "date dr \<notin> set (map date prev)" using False by (auto simp: list_ex_iff)
  then have "distinct (map date (prev @ [dr]))" using assms by simp
  then have "distinct (map date (saveCheckin (Some dr) prev))"
    by (simp only: s distinct_dates_sort_by)
  moreover have "sorted (map date (saveCheckin (Some dr) prev))"
    by (simp add: s sorted_sort_by_date)
  ultimately show ?thesis using False m mem by simp
qed

theorem saveCheckin_upsert_witness:
  "distinct (map date [makeDefaultCheckin ''2024-01-02'', makeDefaultCheckin ''2024-01-01'']) \<and>
   list_ex (\<lambda>x. date x = date ((makeDefaultCheckin ''2024-01-01'')\<lparr>notes := ''edited''\<rparr>))
     [makeDefaultCheckin ''2024-01-02'', makeDefaultCheckin ''2024-01-01''] \<and>
   length (saveCheckin (Some ((makeDefaultCheckin ''2024-01-01'')\<lparr>notes := ''edited''\<rparr>))
          [makeDefaultCheckin ''2024-01-02'', makeDefaultCheckin ''2024-01-01'']) = 2 \<and>
   sorted (map date (saveCheckin (Some ((makeDefaultCheckin ''2024-01-01'')\<lparr>notes := ''edited''\<rparr>))
          [makeDefaultCheckin ''2024-01-02'', makeDefaultCheckin ''2024-01-01''])) \<and>
   distinct (map date [makeDefaultCheckin ''2024-01-01'']) \<and>
   \<not> list_ex (\<lambda>x. date x = date (makeDefaultCheckin ''2023-12-31''))
       [makeDefaultCheckin ''2024-01-01''] \<and>
   mset (saveCheckin (Some (makeDefaultCheckin ''2023-12-31'')) [makeDefaultCheckin ''2024-01-01''])
     = mset [makeDefaultCheckin ''2024-01-01'', makeDefaultCheckin ''2023-12-31''] \<and>
   sorted (map date (saveCheckin (Some (makeDefaultCheckin ''2023-12-31''))
          [makeDefaultCheckin ''2024-01-01'']))"
proof -
  have d1: "distinct (map date [makeDefaultCheckin ''2024-01-02'', makeDefaultCheckin ''2024-01-01''])"
    by (simp add: makeDefaultCheckin_def)
  have d2: "distinct (map date [makeDefaultCheckin ''2024-01-01''])"
    by simp
  have e1: "list_ex (\<lambda>x. date x = date ((makeDefaultCheckin ''2024-01-01'')\<lparr>notes := ''edited''\<rparr>))
     [makeDefaultCheckin ''2024-01-02'', makeDefaultCheckin ''2024-01-01'']"
    by (simp add: makeDefaultCheckin_def)
  have e2: "\<not> list_ex (\<lambda>x. date x = date (makeDefaultCheckin ''2023-12-31''))
     [makeDefaultCheckin ''2024-01-01'']"
    by (simp add: makeDefaultCheckin_def)
  show ?thesis
    using saveCheckin_upsert[OF d1, of "(makeDefaultCheckin ''2024-01-01'')\<lparr>notes := ''edited''\<rparr>"]
      saveCheckin_upsert[OF d2, of "makeDefaultCheckin ''2023-12-31''"] d1 d2 e1 e2
    by simp
qed

section \<open>Numeric input\<close>

lemma StringToNumber_empty: "StringToNumber [] = Fin 0"
  by (simp add: StringToNumber_def trim_def)




section \<open>Loading and persisting\<close>

lemma SyntaxError_unique: "e = SyntaxError"
  by (cases e) simp

lemma safeParse_null_iff:
  "safeParse s = JNull \<longleftrightarrow>
     (case s of None \<Rightarrow> True
      | Some t \<Rightarrow> t = [] \<or> JSON_parse t = Inl SyntaxError \<or> JSON_parse t = Inr JNull)"
  by (cases s; cases "JSON_parse (the s)")
     (auto simp: safeParse_def SyntaxError_unique[of "_ :: SyntaxError"] split: sum.splits)

lemma initial_of_null:
  assumes "safeParse (store STORAGE_KEY) = JNull"
  shows "initial (Some store) = default_state"
  by (simp add: initial_def assms get_prop_def nullish_def default_state_def DEFAULT_MACROS_def)

text \<open>
  C8, as amended. \<open>safeParse\<close> returns \<open>null\<close> exactly when the string is absent, empty,
  not parseable as JSON, or parses to \<open>null\<close>; being total, it never throws. Without a
  window, and whenever the stored string is absent or such a string, \<open>initial\<close> is the
  default state: empty history, 100 plan days, strictness Standard, calories and protein
  tracked, carbs and fat not.
\<close>

theorem initial_falls_back:
  "(safeParse s = JNull \<longleftrightarrow>
     (case s of None \<Rightarrow> True
      | Some t \<Rightarrow> t = [] \<or> JSON_parse t = Inl SyntaxError \<or> JSON_parse t = Inr JNull)) \<and>
   initial None = default_state \<and>
   (store STORAGE_KEY = None \<or>
    (\<exists>t. store STORAGE_KEY = Some t \<and> (t = [] \<or> JSON_parse t = Inl SyntaxError \<or> JSON_parse t = Inr JNull))
    \<longrightarrow> initial (Some store) = default_state)"
proof (intro conjI impI)
  show "safeParse s = JNull \<longleftrightarrow>
     (case s of None \<Rightarrow> True
      | Some t \<Rightarrow> t = [] \<or> JSON_parse t = Inl SyntaxError \<or> JSON_parse t = Inr JNull)"
    by (rule safeParse_null_iff)
  show "initial None = default_state"
    by (simp add: initial_def default_state_def DEFAULT_MACROS_def)
  assume "store STORAGE_KEY = None \<or>
    (\<exists>t. store STORAGE_KEY = Some t \<and> (t = [] \<or> JSON_parse t = Inl SyntaxError \<or> JSON_parse t = Inr JNull))"
  then have "safeParse (store STORAGE_KEY) = JNull"
    by (auto simp: safeParse_null_iff)
  then show "initial (Some store) = default_state"
    by (rule initial_of_null)
qed

theorem initial_falls_back_witness:
  "JSON_parse ''{oops'' = Inl SyntaxError \<and>
   initial (Some (Map.empty(STORAGE_KEY \<mapsto> ''{oops''))) = default_state \<and>
   initial (Some Map.empty) = default_state"
proof -
  have p: "JSON_parse ''{oops'' = Inl SyntaxError" by code_simp
  show ?thesis
    using initial_falls_back[of None "Map.empty(STORAGE_KEY \<mapsto> ''{oops'')"]
      initial_falls_back[of None "Map.empty"] p
    by simp
qed

text \<open>
  The text \<open>null\<close> is present and parses as JSON, and \<open>safeParse\<close> returns \<open>null\<close> for it.
\<close>

theorem safeParse_null_on_parseable_text:
  "JSON_parse ''null'' = Inr JNull \<and> safeParse (Some ''null'') = JNull"
  by code_simp

lemma json_keys_Checkin: "json_keys (Checkin_json d) = Checkin_keys"
  by (simp add: json_keys_def Checkin_json_def Checkin_keys_def)

lemma json_keys_history:
  "map (json_keys \<circ> Checkin_json) xs = replicate (length xs) Checkin_keys"
  by (induction xs) (simp_all add: json_keys_Checkin)

text \<open>
  C9. The payload written to storage is the object of exactly the four fields history,
  planDays, strictness and trackedMacros of the state; every record of its history has
  exactly the sixteen fields of a check-in and the macro mapping its four names, so no
  field is a score. The effect writes the one storage key and leaves every other key as
  it is, and the draft has no influence on what is written.
\<close>

theorem persisted_payload_fields:
  "PersistedState_json (payload st)
     = JObj [(''history'', JArr (map Checkin_json (history st))),
             (''planDays'', JNum (planDays st)),
             (''strictness'', Strictness_json (strictness st)),
             (''trackedMacros'', trackedMacros_json (trackedMacros st))] \<and>
   json_keys (PersistedState_json (payload st))
     = [''history'', ''planDays'', ''strictness'', ''trackedMacros''] \<and>
   map json_keys (map Checkin_json (history st)) = replicate (length (history st)) Checkin_keys \<and>
   json_keys (trackedMacros_json (trackedMacros st)) = [''calories'', ''protein'', ''carbs'', ''fat''] \<and>
   persist stringify st store STORAGE_KEY = Some (stringify (PersistedState_json (payload st))) \<and>
   (persist stringify st store)(STORAGE_KEY := None) = store(STORAGE_KEY := None) \<and>
   persist stringify (st\<lparr>draft := dr\<rparr>) store = persist stringify st store \<and>
   ''DLS'' \<notin> set (json_keys (PersistedState_json (payload st))) \<and>
   ''NEI'' \<notin> set (json_keys (PersistedState_json (payload st))) \<and>
   ''DLS'' \<notin> set Checkin_keys \<and> ''NEI'' \<notin> set Checkin_keys"
  by (simp add: json_keys_history)
     (simp add: PersistedState_json_def payload_def json_keys_def persist_def
      trackedMacros_json_def Checkin_keys_def)

end
